theory Spec2Isabelle
  imports Main "HOL-Library.AList"
begin

section \<open>Values exchanged with the HTTP layer\<close>

text \<open>
  The handlers of the hosts API (\<^verbatim>\<open>hostsAPI\<close>, \<^verbatim>\<open>hostAPI\<close>) and of the user API
  (\<^verbatim>\<open>userAPI\<close>, \<^verbatim>\<open>configurationsAPI\<close>, \<^verbatim>\<open>configurationAPI\<close>) read a request
  object and write a status code and a JSON body into a response object. JSON values are
  a datatype; an object is the list of its own properties in insertion order (keys are
  unique in an object).
\<close>

datatype json =
    JNull
  | JBool bool
  | JNum int
  | JStr string
  | JArr "json list"
  | JObj "(string \<times> json) list"

text \<open>
  What a handler leaves in the response: the status code and the body passed to
  \<^verbatim>\<open>response.json\<close> (the status code is 200 unless the handler sets it), or an
  exception that leaves the handler uncaught, in which case nothing is sent.
\<close>

datatype response = Response nat json | Uncaught

definition error_body :: "string \<Rightarrow> json" where
  "error_body msg = JObj [(''error'', JStr msg)]"

record credentials =
  client_id :: string
  client_secret :: string

record host =
  properties :: json
  oauth2client :: credentials

record user =
  profile :: json
  configurations :: json

text \<open>
  \<^verbatim>\<open>request.oauth2scope\<close>: the hostname the delegation is bound to, the user it
  acts for and a JavaScript \<^verbatim>\<open>Set\<close> of scope names. A property that is
  \<^verbatim>\<open>undefined\<close> is \<open>None\<close>.
\<close>

record scope =
  scope_hostname :: "string option"
  scope_user :: "user option"
  scopes :: "string set"

record machine =
  ports :: "(string \<times> json) list"

text \<open>
  The request: \<^verbatim>\<open>request.query\<close> (URL and query parameters, all strings),
  \<^verbatim>\<open>request.headers\<close>, the text received through the \<^verbatim>\<open>data\<close> events,
  \<^verbatim>\<open>request.user\<close> and \<^verbatim>\<open>request.oauth2scope\<close>.
\<close>

record request =
  query :: "(string \<times> string) list"
  headers :: "(string \<times> string) list"
  body :: string
  user :: "user option"
  oauth2scope :: "scope option"

text \<open>
  The modules the handlers call and that are not part of the two files: \<^verbatim>\<open>lib/hosts\<close>,
  \<^verbatim>\<open>lib/users\<close>, \<^verbatim>\<open>lib/machines\<close> and the built-in \<^verbatim>\<open>JSON.parse\<close>.
  They are parameters of every handler: a theorem holds for whatever they compute.
  A callback's \<^verbatim>\<open>error\<close> argument and a thrown \<^verbatim>\<open>SyntaxError\<close> are \<open>None\<close>.
\<close>

record lib =
  hosts_authenticate :: "request \<Rightarrow> string option"
  hosts_get :: "string option \<Rightarrow> host option"
  hosts_create :: "string option \<Rightarrow> json \<Rightarrow> host option"
  hosts_update :: "string option \<Rightarrow> json \<Rightarrow> host option"
  hosts_resetOAuth2ClientSecret :: "host \<Rightarrow> host option"
  users_isAdmin :: "user option \<Rightarrow> bool"
  machines_getMachineByContainer :: "user \<Rightarrow> string option \<Rightarrow> string \<Rightarrow> machine option"
  JSON_parse :: "string \<Rightarrow> json option"

text \<open>JavaScript truthiness of a string that may be \<^verbatim>\<open>undefined\<close>.\<close>

definition truthy :: "string option \<Rightarrow> bool" where
  "truthy s = (case s of None \<Rightarrow> False | Some v \<Rightarrow> v \<noteq> [])"

text \<open>\<^verbatim>\<open>request.query\<close> handed over as a JSON object.\<close>

definition query_json :: "(string \<times> string) list \<Rightarrow> json" where
  "query_json q = JObj (map (\<lambda>(k, v). (k, JStr v)) q)"

definition credentials_json :: "credentials \<Rightarrow> json" where
  "credentials_json c = JObj [(''id'', JStr (client_id c)), (''secret'', JStr (client_secret c))]"

section \<open>The hosts API\<close>

subsection \<open>GET /hosts/:hostname\<close>

definition hostAPI_get :: "lib \<Rightarrow> request \<Rightarrow> response" where
  "hostAPI_get l request =
     (let hostname = map_of (query request) ''hostname'' in
      if \<not> truthy hostname then Response 400 (error_body ''Invalid hostname'')
      else
        let authenticatedHostname = hosts_authenticate l request in
        case (if truthy authenticatedHostname \<and> authenticatedHostname = hostname
              then hosts_get l hostname else None) of
          Some h \<Rightarrow> Response 200 (properties h)
        | None \<Rightarrow>
            (case (if user request \<noteq> None \<and> users_isAdmin l (user request)
                   then hosts_get l hostname else None) of
               Some h \<Rightarrow> Response 200 (properties h)
             | None \<Rightarrow> Response 404 (error_body ''Host not found'')))"

subsection \<open>POST /hosts/:hostname\<close>

text \<open>
  The three local functions of the handler. \<^verbatim>\<open>getHostProperties\<close> calls its callback
  with the query when the content type is not exactly \<^verbatim>\<open>application/json\<close>, without
  registering a listener on the body; otherwise it parses the body.
\<close>

definition getHostProperties :: "lib \<Rightarrow> request \<Rightarrow> (json \<Rightarrow> response) \<Rightarrow> response" where
  "getHostProperties l request callback =
     (if map_of (headers request) ''content-type'' \<noteq> Some ''application/json''
      then callback (query_json (query request))
      else
        case JSON_parse l (body request) of
          None \<Rightarrow> Response 400 (error_body ''Problems parsing JSON'')
        | Some parameters \<Rightarrow> callback parameters)"

definition createHost :: "lib \<Rightarrow> request \<Rightarrow> string option \<Rightarrow> response" where
  "createHost l request hostname =
     getHostProperties l request (\<lambda>props.
       case hosts_create l hostname props of
         None \<Rightarrow> Response 500 (error_body ''Could not create host'')
       | Some h \<Rightarrow> Response 201 (properties h))"

definition updateHost :: "lib \<Rightarrow> request \<Rightarrow> string option \<Rightarrow> response" where
  "updateHost l request hostname =
     getHostProperties l request (\<lambda>props.
       case hosts_update l hostname props of
         None \<Rightarrow> Response 500 (error_body ''Could not update host'')
       | Some h \<Rightarrow> Response 200 (properties h))"

definition hostAPI_post :: "lib \<Rightarrow> request \<Rightarrow> response" where
  "hostAPI_post l request =
     (let hostname = map_of (query request) ''hostname'' in
      if \<not> truthy hostname then Response 400 (error_body ''Invalid hostname'')
      else
        let authenticatedHostname = hosts_authenticate l request in
        if truthy authenticatedHostname \<and> authenticatedHostname = hostname
        then updateHost l request hostname
        else if user request \<noteq> None \<and> users_isAdmin l (user request)
        then (if hosts_get l hostname \<noteq> None
              then updateHost l request hostname
              else createHost l request hostname)
        else Response 403 (error_body ''Unauthorized''))"

subsection \<open>GET and DELETE /hosts/:hostname/credentials\<close>

definition hostAPI_credentials_get :: "lib \<Rightarrow> request \<Rightarrow> response" where
  "hostAPI_credentials_get l request =
     (if \<not> users_isAdmin l (user request)
      then Response 404 (error_body ''Host not found'')
      else
        case hosts_get l (map_of (query request) ''hostname'') of
          None \<Rightarrow> Response 404 (error_body ''Host not found'')
        | Some h \<Rightarrow> Response 200 (credentials_json (oauth2client h)))"

definition hostAPI_credentials_delete :: "lib \<Rightarrow> request \<Rightarrow> response" where
  "hostAPI_credentials_delete l request =
     (if \<not> users_isAdmin l (user request)
      then Response 404 (error_body ''Host not found'')
      else
        case hosts_get l (map_of (query request) ''hostname'') of
          None \<Rightarrow> Response 404 (error_body ''Host not found'')
        | Some h \<Rightarrow>
            (case hosts_resetOAuth2ClientSecret l h of
               None \<Rightarrow> Response 500 (error_body ''Could not reset host credentials'')
             | Some h' \<Rightarrow> Response 200 (credentials_json (oauth2client h'))))"

subsection \<open>GET /hosts/:hostname/:container/:port\<close>

text \<open>The regular expression \<^verbatim>\<open>/^[0-9a-f]+$/\<close>: one or more characters, all of them
  lower-case hexadecimal digits.\<close>

definition is_hex :: "char \<Rightarrow> bool" where
  "is_hex c = (c \<in> set ''0123456789abcdef'')"

definition hex_regex_test :: "string \<Rightarrow> bool" where
  "hex_regex_test s = (s \<noteq> [] \<and> list_all is_hex s)"

text \<open>\<^verbatim>\<open>String(request.query.port)\<close>.\<close>

definition String_of :: "string option \<Rightarrow> string" where
  "String_of v = (case v of None \<Rightarrow> ''undefined'' | Some s \<Rightarrow> s)"

text \<open>
  The handler first settles the acting user: \<^verbatim>\<open>request.user\<close> if there is one, else
  the user of a delegation scope bound to the requested hostname that has the scope
  \<^verbatim>\<open>user\<close> or \<^verbatim>\<open>user:ports\<close>. Reading \<^verbatim>\<open>container.length\<close> of a missing
  parameter throws.
\<close>

definition hostAPI_port_get :: "lib \<Rightarrow> request \<Rightarrow> response" where
  "hostAPI_port_get l request =
     (let hostname = map_of (query request) ''hostname'';
          acting =
            (case user request of
               Some u \<Rightarrow> Some u
             | None \<Rightarrow>
                 (case oauth2scope request of
                    None \<Rightarrow> None
                  | Some sc \<Rightarrow>
                      if scope_hostname sc = hostname
                      then (if ''user'' \<in> scopes sc \<or> ''user:ports'' \<in> scopes sc
                            then scope_user sc else None)
                      else None))
      in case acting of
           None \<Rightarrow> Response 403 (error_body ''Unauthorized'')
         | Some u \<Rightarrow>
             (case map_of (query request) ''container'' of
                None \<Rightarrow> Uncaught
              | Some container \<Rightarrow>
                  if length container < 16 \<or> \<not> hex_regex_test container
                  then Response 400 (error_body ''Invalid container ID'')
                  else
                    (case machines_getMachineByContainer l u hostname container of
                       None \<Rightarrow> Response 404 (error_body ''Container not found'')
                     | Some m \<Rightarrow>
                         (case map_of (ports m) (String_of (map_of (query request) ''port'')) of
                            Some info \<Rightarrow> Response 200 info
                          | None \<Rightarrow> Response 404 (error_body ''Port not found'')))))"

section \<open>The user API\<close>

text \<open>
  \<^verbatim>\<open>request.user\<close> is the user object held in the in-memory database, so a handler that
  changes \<^verbatim>\<open>user.profile\<close> changes the database. \<open>live\<close> is that object (\<open>None\<close>
  for a request without a user) and \<open>saved\<close> is what the last \<^verbatim>\<open>db.save()\<close> wrote.
\<close>

record store =
  live :: "user option"
  saved :: "user option"

text \<open>
  Modelled from the spec: \<^verbatim>\<open>db.save\<close> (\<^verbatim>\<open>lib/db\<close>) is not among the source files.
  The specification describes the persisted store as a snapshot of the process-wide state
  saved after each successful mutation.
\<close>

definition db_save :: "store \<Rightarrow> store" where
  "db_save st = st\<lparr>saved := live st\<rparr>"

text \<open>
  \<^verbatim>\<open>jsonpatch.applyPatch(document, operations)\<close> of the library fast-json-patch works on
  the document it is given and the handlers drop its return value. Its outcome is the
  document as the call leaves it, together with whether the call returned or threw.
  The library is a parameter of both PATCH handlers.
\<close>

datatype patch_result = Applied json | Threw json

subsection \<open>PATCH /user\<close>

definition userAPI_patch ::
  "(json \<Rightarrow> json \<Rightarrow> patch_result) \<Rightarrow> (string \<Rightarrow> json option) \<Rightarrow> store \<Rightarrow> string \<Rightarrow> store \<times> response" where
  "userAPI_patch applyPatch parse st json_text =
     (case live st of
        None \<Rightarrow> (st, Response 403 (error_body ''Unauthorized''))
      | Some u \<Rightarrow>
          (case parse json_text of
             None \<Rightarrow> (st, Response 400 (error_body ''Problems parsing JSON''))
           | Some operations \<Rightarrow>
               (case applyPatch (profile u) operations of
                  Threw d \<Rightarrow> (st\<lparr>live := Some (u\<lparr>profile := d\<rparr>)\<rparr>, Uncaught)
                | Applied d \<Rightarrow>
                    (db_save (st\<lparr>live := Some (u\<lparr>profile := d\<rparr>)\<rparr>), Response 200 d))))"

subsection \<open>PATCH /user/configurations\<close>

text \<open>\<^verbatim>\<open>path.replace\<close> with a pattern anchored at the start: one leading slash is
  removed, nothing else.\<close>

definition strip_slash :: "string \<Rightarrow> string" where
  "strip_slash p = (case p of [] \<Rightarrow> [] | c # r \<Rightarrow> if c = CHR ''/'' then r else p)"

text \<open>
  \<^verbatim>\<open>operation.path.replace(...)\<close> throws a \<^verbatim>\<open>TypeError\<close> unless the operation has a
  property \<^verbatim>\<open>path\<close> that is a string; \<^verbatim>\<open>operations.map\<close> throws unless the parsed
  value is an array. \<open>None\<close> is the exception, which the handler catches.
\<close>

definition operation_file :: "json \<Rightarrow> string option" where
  "operation_file operation =
     (case operation of
        JObj kvs \<Rightarrow> (case map_of kvs ''path'' of Some (JStr p) \<Rightarrow> Some (strip_slash p) | _ \<Rightarrow> None)
      | _ \<Rightarrow> None)"

definition changedFiles :: "json \<Rightarrow> string list option" where
  "changedFiles operations =
     (case operations of JArr ops \<Rightarrow> those (map operation_file ops) | _ \<Rightarrow> None)"

text \<open>\<^verbatim>\<open>configurations.allowed\<close> (\<^verbatim>\<open>lib/configurations\<close>) is the parameter \<open>allowed\<close>.\<close>

definition configurationsAPI_patch ::
  "(json \<Rightarrow> json \<Rightarrow> patch_result) \<Rightarrow> (string \<Rightarrow> json option) \<Rightarrow> string list \<Rightarrow> store \<Rightarrow> string
     \<Rightarrow> store \<times> response" where
  "configurationsAPI_patch applyPatch parse allowed st json_text =
     (case live st of
        None \<Rightarrow> (st, Response 403 (error_body ''Unauthorized''))
      | Some u \<Rightarrow>
          (case parse json_text of
             None \<Rightarrow> (st, Response 400 (error_body ''Problems parsing JSON''))
           | Some operations \<Rightarrow>
               (case changedFiles operations of
                  None \<Rightarrow> (st, Response 400 (error_body ''Problems parsing JSON''))
                | Some files \<Rightarrow>
                    (case find (\<lambda>file. file \<notin> set allowed) files of
                       Some file \<Rightarrow>
                         (st, Response 400 (error_body (''Updating '' @ file @ '' is forbidden'')))
                     | None \<Rightarrow>
                         (case applyPatch (configurations u) operations of
                            Threw d \<Rightarrow> (st\<lparr>live := Some (u\<lparr>configurations := d\<rparr>)\<rparr>, Uncaught)
                          | Applied d \<Rightarrow>
                              (db_save (st\<lparr>live := Some (u\<lparr>configurations := d\<rparr>)\<rparr>),
                               Response 200 d))))))"

subsection \<open>PUT /user/configurations/:file\<close>

text \<open>A count in decimal, as string concatenation renders a non-negative integer.\<close>

definition digit_char :: "nat \<Rightarrow> char" where
  "digit_char d =
     (if d = 0 then CHR ''0'' else if d = 1 then CHR ''1'' else if d = 2 then CHR ''2''
      else if d = 3 then CHR ''3'' else if d = 4 then CHR ''4'' else if d = 5 then CHR ''5''
      else if d = 6 then CHR ''6'' else if d = 7 then CHR ''7'' else if d = 8 then CHR ''8''
      else CHR ''9'')"

fun show_nat :: "nat \<Rightarrow> string" where
  "show_nat n =
     (if n < 10 then [digit_char n]
      else show_nat (n div 10) @ [digit_char (n mod 10)])"

declare show_nat.simps [simp del]

text \<open>
  The promise returned by \<^verbatim>\<open>machines.deployConfigurationInAllContainers\<close> resolves
  with a count (\<open>Inr\<close>) or is rejected (\<open>Inl\<close>).
\<close>

definition configurationAPI_put ::
  "(user \<Rightarrow> string option \<Rightarrow> 'e + nat) \<Rightarrow> user option \<Rightarrow> (string \<times> string) list \<Rightarrow> response" where
  "configurationAPI_put deploy usr q =
     (case usr of
        None \<Rightarrow> Response 403 (error_body ''Unauthorized'')
      | Some u \<Rightarrow>
          (let file = map_of q ''file'' in
           case deploy u file of
             Inr count \<Rightarrow>
               Response 200 (JObj [(''message'',
                 JStr (''Successfully deployed to '' @ show_nat count @ '' container'' @
                       (if count = 1 then [] else ''s'')))])
           | Inl err \<Rightarrow> Response 500 (error_body ''Could not deploy configuration'')))"

text \<open>
  Modelled from the spec: \<^verbatim>\<open>machines.deployConfigurationInAllContainers\<close>
  (\<^verbatim>\<open>lib/machines\<close>) is not among the source files. The specification (section 4.4):
  it enumerates every running container the user owns; it writes the file into each one,
  a failed write being tolerated; the result is the count of containers that succeeded, 0
  for no container; only a failure to enumerate the containers is an error. \<open>containers_of\<close>
  lists the containers (\<open>None\<close>: the enumeration failed) and \<open>write_file\<close> tells whether the
  write into one container succeeded.
\<close>

definition deployConfigurationInAllContainers ::
  "(user \<Rightarrow> 'c list option) \<Rightarrow> ('c \<Rightarrow> string option \<Rightarrow> bool) \<Rightarrow> user \<Rightarrow> string option \<Rightarrow> unit + nat" where
  "deployConfigurationInAllContainers containers_of write_file u file =
     (case containers_of u of
        None \<Rightarrow> Inl ()
      | Some cs \<Rightarrow> Inr (length (filter (\<lambda>c. write_file c file) cs)))"

section \<open>The claims' own notions\<close>

text \<open>
  The top-level key of an operation's path as the specification words it: the first
  segment of the path. It is compared below with what the handler extracts
  (\<open>strip_slash\<close>, the whole path less one leading slash).
\<close>

definition top_level_key :: "string \<Rightarrow> string" where
  "top_level_key p = takeWhile (\<lambda>c. c \<noteq> CHR ''/'') (strip_slash p)"

text \<open>
  The identities the specification's table allows on a container port: an administrator,
  or a delegation bound to the requested hostname whose scopes contain \<^verbatim>\<open>user\<close> or
  \<^verbatim>\<open>user:ports\<close>.
\<close>

definition table_allows_port :: "lib \<Rightarrow> request \<Rightarrow> bool" where
  "table_allows_port l request =
     ((case user request of Some u \<Rightarrow> users_isAdmin l (Some u) | None \<Rightarrow> False) \<or>
      (case oauth2scope request of
         Some sc \<Rightarrow>
           scope_hostname sc = map_of (query request) ''hostname'' \<and>
           (''user'' \<in> scopes sc \<or> ''user:ports'' \<in> scopes sc)
       | None \<Rightarrow> False))"

section \<open>A fragment of the JSON Patch library\<close>

text \<open>
  \<^verbatim>\<open>applyPatch\<close> of fast-json-patch, called as the handlers call it (no validation, the
  document changed in place), on the inputs the examples below use: a document that is an
  object, a patch that is an array, and the operations \<^verbatim>\<open>add\<close>, \<^verbatim>\<open>replace\<close>,
  \<^verbatim>\<open>remove\<close> and \<^verbatim>\<open>test\<close> on a path of one segment without escapes. The operations
  run in order on the document; the first one that throws ends the call and leaves in
  the document what the operations before it did. A failed \<^verbatim>\<open>test\<close> throws. Anything
  outside this fragment is given as a throw that changes nothing, which is what the
  library does for the patch \<^verbatim>\<open>null\<close> (reading \<^verbatim>\<open>patch.length\<close> throws); the
  examples stay inside the fragment otherwise.
\<close>

definition applyOperation :: "(string \<times> json) list \<Rightarrow> json \<Rightarrow> (string \<times> json) list option" where
  "applyOperation doc operation =
     (case operation of
        JObj kvs \<Rightarrow>
          (case (map_of kvs ''op'', map_of kvs ''path'') of
             (Some (JStr name), Some (JStr (c # key))) \<Rightarrow>
               if c \<noteq> CHR ''/'' \<or> CHR ''/'' \<in> set key \<or> CHR ''~'' \<in> set key then None
               else if name = ''add'' \<or> name = ''replace'' then
                 (case map_of kvs ''value'' of
                    Some v \<Rightarrow> Some (AList.update key v doc)
                  | None \<Rightarrow> None)
               else if name = ''remove'' then Some (AList.delete key doc)
               else if name = ''test'' then
                 (if map_of kvs ''value'' \<noteq> None \<and> map_of doc key = map_of kvs ''value''
                  then Some doc else None)
               else None
           | _ \<Rightarrow> None)
      | _ \<Rightarrow> None)"

fun applyOperations :: "(string \<times> json) list \<Rightarrow> json list \<Rightarrow> patch_result" where
  "applyOperations doc [] = Applied (JObj doc)"
| "applyOperations doc (operation # rest) =
     (case applyOperation doc operation of
        None \<Rightarrow> Threw (JObj doc)
      | Some doc' \<Rightarrow> applyOperations doc' rest)"

definition jsonpatch_applyPatch :: "json \<Rightarrow> json \<Rightarrow> patch_result" where
  "jsonpatch_applyPatch document patch =
     (case document of
        JObj doc \<Rightarrow> (case patch of JArr ops \<Rightarrow> applyOperations doc ops | _ \<Rightarrow> Threw document)
      | _ \<Rightarrow> Threw document)"

section \<open>The examples' data\<close>

text \<open>
  The host, its credentials and the request parameters are those of the API's own
  examples (\<^verbatim>\<open>beforeTests\<close> creates \<^verbatim>\<open>host.name\<close> with the port 2376, the client id
  1234 and the secret 123456).
\<close>

definition example_host :: host where
  "example_host =
     \<lparr>properties = JObj [(''port'', JStr ''2376'')],
      oauth2client = \<lparr>client_id = ''1234'', client_secret = ''123456''\<rparr>\<rparr>"

definition example_admin :: user where
  "example_admin = \<lparr>profile = JObj [(''name'', JStr ''Admin'')], configurations = JObj []\<rparr>"

definition example_user :: user where
  "example_user =
     \<lparr>profile = JObj [(''name'', JStr ''User Name'')],
      configurations = JObj [(''.gitconfig'', JStr [])]\<rparr>"

definition example_machine :: machine where
  "example_machine =
     \<lparr>ports = [(''8080'', JObj [(''port'', JNum 42000), (''proxy'', JStr ''https'')])]\<rparr>"

definition body_null :: string where
  "body_null = ''null''"

definition body_add_then_test :: string where
  \<open>body_add_then_test =
     ''[{"op":"add","path":"/name","value":"X"},{"op":"test","path":"/name","value":"Y"}]''\<close>

definition patch_add_then_test :: json where
  "patch_add_then_test =
     JArr [JObj [(''op'', JStr ''add''), (''path'', JStr ''/name''), (''value'', JStr ''X'')],
           JObj [(''op'', JStr ''test''), (''path'', JStr ''/name''), (''value'', JStr ''Y'')]]"

definition body_gitconfig :: string where
  \<open>body_gitconfig = ''[{"op":"add","path":"/.gitconfig","value":"[user]"}]''\<close>

definition patch_gitconfig :: json where
  "patch_gitconfig =
     JArr [JObj [(''op'', JStr ''add''), (''path'', JStr ''/.gitconfig''), (''value'', JStr ''[user]'')]]"

definition body_nested :: string where
  \<open>body_nested = ''[{"op":"add","path":"/.gitconfig/name","value":"x"}]''\<close>

definition patch_nested :: json where
  "patch_nested =
     JArr [JObj [(''op'', JStr ''add''), (''path'', JStr ''/.gitconfig/name''), (''value'', JStr ''x'')]]"

definition body_broken :: string where
  "body_broken = ''[{''"

text \<open>
  \<^verbatim>\<open>JSON.parse\<close> on the texts above: \<open>body_broken\<close> is not JSON and the other four
  parse to the values beside them. Every other text is outside the examples and is given
  as not parseable.
\<close>

definition example_parse :: "string \<Rightarrow> json option" where
  "example_parse t =
     (if t = body_null then Some JNull
      else if t = body_add_then_test then Some patch_add_then_test
      else if t = body_gitconfig then Some patch_gitconfig
      else if t = body_nested then Some patch_nested
      else None)"

definition example_lib :: lib where
  "example_lib =
     \<lparr>hosts_authenticate =
        (\<lambda>r. if map_of (query r) ''client_id'' = Some ''1234'' \<and>
                 map_of (query r) ''client_secret'' = Some ''123456''
              then Some ''host.name'' else None),
      hosts_get = (\<lambda>h. if h = Some ''host.name'' then Some example_host else None),
      hosts_create = (\<lambda>h p. Some \<lparr>properties = p,
                                 oauth2client = \<lparr>client_id = ''5678'', client_secret = ''567890''\<rparr>\<rparr>),
      hosts_update =
        (\<lambda>h p. if h = Some ''host.name'' then Some (example_host\<lparr>properties := p\<rparr>) else None),
      hosts_resetOAuth2ClientSecret =
        (\<lambda>h. Some (h\<lparr>oauth2client := (oauth2client h)\<lparr>client_secret := ''654321''\<rparr>\<rparr>)),
      users_isAdmin = (\<lambda>u. u = Some example_admin),
      machines_getMachineByContainer =
        (\<lambda>u h c. if h = Some ''host.name'' \<and> c = ''abcdef0123456789''
                 then Some example_machine else None),
      JSON_parse = example_parse\<rparr>"

definition example_request :: request where
  "example_request =
     \<lparr>query = [], headers = [], body = [], user = None, oauth2scope = None\<rparr>"

text \<open>The credentials of \<^verbatim>\<open>host.name\<close> presented against another hostname (the second
  example of the POST handler).\<close>

definition request_other_host :: request where
  "request_other_host =
     example_request
       \<lparr>query := [(''hostname'', ''unauthorized.host.name''), (''client_id'', ''1234''),
                  (''client_secret'', ''123456'')],
        headers := [(''content-type'', ''application/json'')]\<rparr>"

definition request_own_host :: request where
  "request_own_host =
     example_request
       \<lparr>query := [(''hostname'', ''host.name''), (''client_id'', ''1234''),
                  (''client_secret'', ''123456'')]\<rparr>"

definition request_admin :: request where
  "request_admin =
     example_request\<lparr>query := [(''hostname'', ''host.name'')], user := Some example_admin\<rparr>"

definition request_user :: request where
  "request_user =
     example_request\<lparr>query := [(''hostname'', ''host.name'')], user := Some example_user\<rparr>"

definition request_port :: request where
  "request_port =
     example_request
       \<lparr>query := [(''hostname'', ''host.name''), (''container'', ''abcdef0123456789''),
                  (''port'', ''8080'')],
        user := Some example_user\<rparr>"

definition request_port_short :: request where
  "request_port_short =
     example_request
       \<lparr>query := [(''hostname'', ''host.name''), (''container'', ''abcdef''), (''port'', ''8080'')],
        user := Some example_user\<rparr>"

definition request_form :: request where
  "request_form =
     example_request
       \<lparr>query := [(''hostname'', ''host.name''), (''port'', ''2377'')],
        headers := [(''content-type'', ''application/x-www-form-urlencoded'')],
        body := ''port=9999'',
        user := Some example_admin\<rparr>"

definition example_store :: store where
  "example_store = \<lparr>live = Some example_user, saved = Some example_user\<rparr>"

definition request_admin_unknown_host :: request where
  "request_admin_unknown_host =
     example_request
       \<lparr>query := [(''hostname'', ''unexistant.host.name'')], user := Some example_admin\<rparr>"

text \<open>Two running containers of the example user; the write into the second one fails.\<close>

definition example_containers :: "user \<Rightarrow> string list option" where
  "example_containers u =
     (if u = example_user then Some [''abcdef0123456789'', ''0123456789abcdef''] else Some [])"

definition example_write :: "string \<Rightarrow> string option \<Rightarrow> bool" where
  "example_write c file = (c = ''abcdef0123456789'')"

section \<open>Basic facts\<close>

lemmas example_defs = example_lib_def example_request_def example_host_def example_admin_def
  example_user_def example_machine_def

lemmas patch_example_defs = example_store_def example_user_def example_parse_def body_null_def
  body_add_then_test_def patch_add_then_test_def body_gitconfig_def patch_gitconfig_def
  body_nested_def patch_nested_def body_broken_def

lemma find_not_allowed_None:
  "set files \<subseteq> set allowed \<Longrightarrow> find (\<lambda>file. file \<notin> set allowed) files = None"
  by (auto simp add: find_None_iff)

lemma find_first_offending:
  "\<not> set files \<subseteq> set allowed \<Longrightarrow>
   find (\<lambda>file. file \<notin> set allowed) files =
     Some (hd (filter (\<lambda>file. file \<notin> set allowed) files))"
  by (induction files) auto

lemma those_map_None:
  "x \<in> set xs \<Longrightarrow> f x = None \<Longrightarrow> those (map f xs) = None"
  by (induction xs) (auto split: option.splits)

text \<open>
  In the library fragment a batch stops at its first failing operation and the document
  keeps what the operations before it did.
\<close>

lemma applyOperations_stops_at_failure:
  "applyOperations doc ops = Applied (JObj doc') \<Longrightarrow> applyOperation doc' failing = None \<Longrightarrow>
   applyOperations doc (ops @ failing # rest) = Threw (JObj doc')"
  by (induction ops arbitrary: doc) (auto split: option.splits)

text \<open>
  The message of PUT /user/configurations/:file for any deployment that resolves with a
  count: the singular for 1, the plural for every other count.
\<close>

lemma configurationAPI_put_message:
  "deploy u (map_of q ''file'') = Inr n \<Longrightarrow>
   configurationAPI_put deploy (Some u) q =
     Response 200 (JObj [(''message'',
       JStr (''Successfully deployed to '' @ show_nat n @
             (if n = 1 then '' container'' else '' containers'')))])"
  by (simp add: configurationAPI_put_def Let_def)

lemma show_nat_0: "show_nat 0 = ''0''"
  by (simp add: show_nat.simps digit_char_def)

section \<open>Host credentials are bound to one hostname\<close>

text \<open>
  Claim C1. On GET and POST /hosts/:hostname, a host credential that authenticates a
  hostname other than the one requested never takes the host branch: the handler answers
  as it would without any host credential, and unless the request also carries an
  administrator it is rejected (404 on GET, 403 on POST, 400 when the hostname itself is
  missing).
\<close>

theorem host_credential_bound_to_hostname:
  assumes "hosts_authenticate l request \<noteq> map_of (query request) ''hostname''"
  shows "hostAPI_get l request = hostAPI_get (l\<lparr>hosts_authenticate := \<lambda>r. None\<rparr>) request \<and>
         hostAPI_post l request = hostAPI_post (l\<lparr>hosts_authenticate := \<lambda>r. None\<rparr>) request \<and>
         (\<not> (user request \<noteq> None \<and> users_isAdmin l (user request)) \<longrightarrow>
            hostAPI_get l request =
              (if truthy (map_of (query request) ''hostname'')
               then Response 404 (error_body ''Host not found'')
               else Response 400 (error_body ''Invalid hostname'')) \<and>
            hostAPI_post l request =
              (if truthy (map_of (query request) ''hostname'')
               then Response 403 (error_body ''Unauthorized'')
               else Response 400 (error_body ''Invalid hostname'')))"
  using assms
  by (simp add: hostAPI_get_def hostAPI_post_def Let_def truthy_def updateHost_def createHost_def
      getHostProperties_def)

theorem host_credential_bound_to_hostname_witness:
  "hosts_authenticate example_lib request_other_host = Some ''host.name'' \<and>
   hostAPI_get example_lib request_other_host = Response 404 (error_body ''Host not found'') \<and>
   hostAPI_post example_lib request_other_host = Response 403 (error_body ''Unauthorized'')"
  using host_credential_bound_to_hostname [of example_lib request_other_host]
  by (simp add: example_defs request_other_host_def truthy_def hostAPI_get_def hostAPI_post_def
      Let_def)

section \<open>Who may read a container port\<close>

text \<open>
  Claim C2, as amended. On GET /hosts/:hostname/:container/:port the handler answers
  403 Unauthorized exactly when the request has no user at all (administrator or not) and
  no delegation that is bound to the requested hostname, has the scope \<^verbatim>\<open>user\<close> or
  \<^verbatim>\<open>user:ports\<close> and carries a user. The handler never asks whether the user is an
  administrator.
\<close>

theorem port_access_gate:
  "hostAPI_port_get l request = Response 403 (error_body ''Unauthorized'') \<longleftrightarrow>
     \<not> (user request \<noteq> None \<or>
        (\<exists>sc. oauth2scope request = Some sc \<and>
              scope_hostname sc = map_of (query request) ''hostname'' \<and>
              (''user'' \<in> scopes sc \<or> ''user:ports'' \<in> scopes sc) \<and>
              scope_user sc \<noteq> None))"
  by (auto simp add: hostAPI_port_get_def Let_def error_body_def
      split: option.splits if_splits)

theorem port_access_gate_witness:
  "user request_port = Some example_user \<and>
   hostAPI_port_get example_lib request_port \<noteq> Response 403 (error_body ''Unauthorized'')"
  using port_access_gate [of example_lib request_port]
  by (simp add: example_defs request_port_def)

text \<open>
  The claim as it was stated fails: a user who is not an administrator, without any
  delegation, is not among the identities of the table and still reads the port.
\<close>

theorem port_access_admin_only_counterexample:
  "\<not> users_isAdmin example_lib (user request_port) \<and>
   oauth2scope request_port = None \<and>
   \<not> table_allows_port example_lib request_port \<and>
   hostAPI_port_get example_lib request_port =
     Response 200 (JObj [(''port'', JNum 42000), (''proxy'', JStr ''https'')])"
  by (simp add: table_allows_port_def hostAPI_port_get_def Let_def example_defs request_port_def
      hex_regex_test_def is_hex_def String_of_def)

section \<open>Host credentials are hidden from everyone but administrators\<close>

text \<open>
  Claim C5. On GET and DELETE /hosts/:hostname/credentials a request whose user is not
  an administrator gets 404 \<^verbatim>\<open>Host not found\<close> whatever hosts exist, and that is the very
  response an administrator gets for a host that does not exist.
\<close>

theorem credentials_hidden_from_non_admin:
  assumes "\<not> users_isAdmin l (user request)"
      and "users_isAdmin l' (user request')"
      and "hosts_get l' (map_of (query request') ''hostname'') = None"
  shows "hostAPI_credentials_get l request = Response 404 (error_body ''Host not found'') \<and>
         hostAPI_credentials_delete l request = Response 404 (error_body ''Host not found'') \<and>
         hostAPI_credentials_get l request = hostAPI_credentials_get l' request' \<and>
         hostAPI_credentials_delete l request = hostAPI_credentials_delete l' request'"
  using assms
  by (simp add: hostAPI_credentials_get_def hostAPI_credentials_delete_def)

theorem credentials_hidden_from_non_admin_witness:
  "hosts_get example_lib (map_of (query request_user) ''hostname'') = Some example_host \<and>
   hostAPI_credentials_get example_lib request_user =
     Response 404 (error_body ''Host not found'') \<and>
   hostAPI_credentials_delete example_lib request_user =
     Response 404 (error_body ''Host not found'') \<and>
   hostAPI_credentials_get example_lib request_admin_unknown_host =
     Response 404 (error_body ''Host not found'') \<and>
   hostAPI_credentials_delete example_lib request_admin_unknown_host =
     Response 404 (error_body ''Host not found'')"
proof -
  have a: "\<not> users_isAdmin example_lib (user request_user)"
    by (simp add: example_defs request_user_def)
  have b: "users_isAdmin example_lib (user request_admin_unknown_host)"
    by (simp add: example_defs request_admin_unknown_host_def)
  have c: "hosts_get example_lib (map_of (query request_admin_unknown_host) ''hostname'') = None"
    by (simp add: example_defs request_admin_unknown_host_def)
  have d: "hosts_get example_lib (map_of (query request_user) ''hostname'') = Some example_host"
    by (simp add: example_lib_def example_request_def request_user_def)
  show ?thesis
    using credentials_hidden_from_non_admin [OF a b c] d by metis
qed

section \<open>A host and an administrator read the same properties\<close>

text \<open>
  Claim C6. For a hostname with a stored host record, GET /hosts/:hostname answers a
  request authenticated by that host's credential and a request of an administrator
  alike, with the properties of the stored record (for the empty hostname both get the
  same 400).
\<close>

theorem admin_and_host_read_same_properties:
  assumes "map_of (query r1) ''hostname'' = Some h"
      and "map_of (query r2) ''hostname'' = Some h"
      and "hosts_authenticate l r1 = Some h"
      and "user r2 = Some u"
      and "users_isAdmin l (Some u)"
      and "hosts_get l (Some h) = Some stored"
  shows "hostAPI_get l r1 = hostAPI_get l r2 \<and>
         (h \<noteq> [] \<longrightarrow> hostAPI_get l r1 = Response 200 (properties stored))"
  using assms
  by (simp add: hostAPI_get_def Let_def truthy_def)

theorem admin_and_host_read_same_properties_witness:
  "hostAPI_get example_lib request_own_host = Response 200 (JObj [(''port'', JStr ''2376'')]) \<and>
   hostAPI_get example_lib request_admin = Response 200 (JObj [(''port'', JStr ''2376'')])"
proof -
  have a: "map_of (query request_own_host) ''hostname'' = Some ''host.name''"
    by (simp add: request_own_host_def example_request_def)
  have b: "map_of (query request_admin) ''hostname'' = Some ''host.name''"
    by (simp add: request_admin_def example_request_def)
  have c: "hosts_authenticate example_lib request_own_host = Some ''host.name''"
    by (simp add: example_lib_def request_own_host_def example_request_def)
  have d: "user request_admin = Some example_admin"
    by (simp add: request_admin_def example_request_def)
  have e: "users_isAdmin example_lib (Some example_admin)"
    by (simp add: example_lib_def)
  have f: "hosts_get example_lib (Some ''host.name'') = Some example_host"
    by (simp add: example_lib_def)
  show ?thesis
    using admin_and_host_read_same_properties [OF a b c d e f]
    by (auto simp add: example_host_def)
qed

section \<open>The container id is checked before any lookup\<close>

text \<open>
  Claim C7. On GET /hosts/:hostname/:container/:port, a request that passes the
  authorization (it has a user, or a delegation bound to the hostname with the scope
  \<^verbatim>\<open>user\<close> or \<^verbatim>\<open>user:ports\<close>) and whose container id is shorter than 16 characters
  or has a character outside 0-9a-f gets 400 \<^verbatim>\<open>Invalid container ID\<close>, whatever
  \<^verbatim>\<open>machines.getMachineByContainer\<close> would answer: the lookup is not consulted.
\<close>

theorem invalid_container_rejected_before_lookup:
  assumes "user request \<noteq> None \<or>
           (\<exists>sc. oauth2scope request = Some sc \<and>
                 scope_hostname sc = map_of (query request) ''hostname'' \<and>
                 (''user'' \<in> scopes sc \<or> ''user:ports'' \<in> scopes sc) \<and>
                 scope_user sc \<noteq> None)"
      and "map_of (query request) ''container'' = Some container"
      and "length container < 16 \<or> (\<exists>c \<in> set container. \<not> is_hex c)"
  shows "hostAPI_port_get (l\<lparr>machines_getMachineByContainer := lookup\<rparr>) request =
           Response 400 (error_body ''Invalid container ID'')"
  using assms
  by (auto simp add: hostAPI_port_get_def Let_def hex_regex_test_def list_all_iff
      split: option.splits if_splits)

theorem invalid_container_rejected_before_lookup_witness:
  "hostAPI_port_get example_lib request_port_short =
     Response 400 (error_body ''Invalid container ID'')"
proof -
  have a: "user request_port_short \<noteq> None \<or>
           (\<exists>sc. oauth2scope request_port_short = Some sc \<and>
                 scope_hostname sc = map_of (query request_port_short) ''hostname'' \<and>
                 (''user'' \<in> scopes sc \<or> ''user:ports'' \<in> scopes sc) \<and>
                 scope_user sc \<noteq> None)"
    by (simp add: request_port_short_def example_request_def)
  have b: "map_of (query request_port_short) ''container'' = Some ''abcdef''"
    by (simp add: request_port_short_def example_request_def)
  have c: "length ''abcdef'' < 16 \<or> (\<exists>c \<in> set ''abcdef''. \<not> is_hex c)"
    by simp
  have d: "example_lib\<lparr>machines_getMachineByContainer :=
             machines_getMachineByContainer example_lib\<rparr> = example_lib"
    by simp
  show ?thesis
    using invalid_container_rejected_before_lookup
      [OF a b c, where l = example_lib and lookup = "machines_getMachineByContainer example_lib"]
    by (simp only: d)
qed

section \<open>Where the properties of a posted host come from\<close>

text \<open>
  Claim C10. On POST /hosts/:hostname, when the content type is not exactly
  \<^verbatim>\<open>application/json\<close> the properties handed to \<^verbatim>\<open>hosts.update\<close> or
  \<^verbatim>\<open>hosts.create\<close> are the query parameters as they are, whatever the body holds and
  whatever the parser would do with it; this holds for every authorized request. The body
  is parsed only when the content type is exactly \<^verbatim>\<open>application/json\<close>.
\<close>

theorem query_used_unless_json_content_type:
  "(map_of (headers request) ''content-type'' \<noteq> Some ''application/json'' \<longrightarrow>
      getHostProperties (l\<lparr>JSON_parse := parse\<rparr>) (request\<lparr>body := payload\<rparr>) callback =
        callback (query_json (query request)) \<and>
      updateHost (l\<lparr>JSON_parse := parse\<rparr>) (request\<lparr>body := payload\<rparr>) hostname =
        (case hosts_update l hostname (query_json (query request)) of
           None \<Rightarrow> Response 500 (error_body ''Could not update host'')
         | Some h \<Rightarrow> Response 200 (properties h)) \<and>
      createHost (l\<lparr>JSON_parse := parse\<rparr>) (request\<lparr>body := payload\<rparr>) hostname =
        (case hosts_create l hostname (query_json (query request)) of
           None \<Rightarrow> Response 500 (error_body ''Could not create host'')
         | Some h \<Rightarrow> Response 201 (properties h)) \<and>
      (truthy (map_of (query request) ''hostname'') \<and>
       (hosts_authenticate l request = map_of (query request) ''hostname'' \<or>
        user request \<noteq> None \<and> users_isAdmin l (user request)) \<longrightarrow>
         hostAPI_post (l\<lparr>JSON_parse := parse\<rparr>) request =
           (if hosts_authenticate l request = map_of (query request) ''hostname'' \<or>
               hosts_get l (map_of (query request) ''hostname'') \<noteq> None
            then (case hosts_update l (map_of (query request) ''hostname'')
                         (query_json (query request)) of
                    None \<Rightarrow> Response 500 (error_body ''Could not update host'')
                  | Some h \<Rightarrow> Response 200 (properties h))
            else (case hosts_create l (map_of (query request) ''hostname'')
                         (query_json (query request)) of
                    None \<Rightarrow> Response 500 (error_body ''Could not create host'')
                  | Some h \<Rightarrow> Response 201 (properties h))))) \<and>
   (map_of (headers request) ''content-type'' = Some ''application/json'' \<longrightarrow>
      getHostProperties l request callback =
        (case JSON_parse l (body request) of
           None \<Rightarrow> Response 400 (error_body ''Problems parsing JSON'')
         | Some parameters \<Rightarrow> callback parameters))"
  by (auto simp add: getHostProperties_def updateHost_def createHost_def hostAPI_post_def Let_def)

theorem query_used_unless_json_content_type_witness:
  "map_of (headers request_form) ''content-type'' = Some ''application/x-www-form-urlencoded'' \<and>
   hostAPI_post example_lib request_form =
     Response 200 (JObj [(''hostname'', JStr ''host.name''), (''port'', JStr ''2377'')])"
  using query_used_unless_json_content_type
    [where request = request_form and l = example_lib and parse = "JSON_parse example_lib"
       and payload = "body request_form" and hostname = "Some ''host.name''"]
  by (simp add: hostAPI_post_def Let_def truthy_def example_defs request_form_def query_json_def)

section \<open>The message of a deployment\<close>

text \<open>
  Claim C8. On PUT /user/configurations/:file, when the containers of the user can be
  listed, the answer is 200 with the message \<^verbatim>\<open>Successfully deployed to N container\<close>
  for N = 1 and \<^verbatim>\<open>Successfully deployed to N containers\<close> otherwise, N being the number
  of containers whose write succeeded: a failed write lowers the count and raises no error,
  and a user without containers gets \<^verbatim>\<open>0 containers\<close>.
\<close>

theorem deployment_message:
  assumes "containers_of u = Some cs"
  shows "configurationAPI_put (deployConfigurationInAllContainers containers_of write_file) (Some u) q =
           Response 200 (JObj [(''message'',
             JStr (''Successfully deployed to '' @
                   show_nat (length (filter (\<lambda>c. write_file c (map_of q ''file'')) cs)) @
                   (if length (filter (\<lambda>c. write_file c (map_of q ''file'')) cs) = 1
                    then '' container'' else '' containers'')))]) \<and>
         length (filter (\<lambda>c. write_file c (map_of q ''file'')) cs) \<le> length cs \<and>
         (cs = [] \<longrightarrow>
            configurationAPI_put (deployConfigurationInAllContainers containers_of write_file) (Some u) q =
              Response 200 (JObj [(''message'', JStr ''Successfully deployed to 0 containers'')]))"
proof -
  let ?n = "length (filter (\<lambda>c. write_file c (map_of q ''file'')) cs)"
  have resolved:
    "deployConfigurationInAllContainers containers_of write_file u (map_of q ''file'') = Inr ?n"
    using assms by (simp add: deployConfigurationInAllContainers_def)
  have message:
    "configurationAPI_put (deployConfigurationInAllContainers containers_of write_file) (Some u) q =
       Response 200 (JObj [(''message'',
         JStr (''Successfully deployed to '' @ show_nat ?n @
               (if ?n = 1 then '' container'' else '' containers'')))])"
    using resolved
    by (rule configurationAPI_put_message
        [where deploy = "deployConfigurationInAllContainers containers_of write_file"])
  have none: "cs = [] \<Longrightarrow> ?n = 0"
    by simp
  show ?thesis
    using message none by (auto simp add: show_nat_0)
qed

theorem deployment_message_witness:
  "configurationAPI_put (deployConfigurationInAllContainers example_containers example_write)
       (Some example_user) [(''file'', ''.gitconfig'')] =
     Response 200 (JObj [(''message'', JStr ''Successfully deployed to 1 container'')]) \<and>
   configurationAPI_put (deployConfigurationInAllContainers example_containers example_write)
       (Some example_admin) [(''file'', ''.gitconfig'')] =
     Response 200 (JObj [(''message'', JStr ''Successfully deployed to 0 containers'')])"
proof -
  have a: "example_containers example_user = Some [''abcdef0123456789'', ''0123456789abcdef'']"
    by (simp add: example_containers_def)
  have b: "example_containers example_admin = Some []"
    by (simp add: example_containers_def example_user_def example_admin_def)
  show ?thesis
    using deployment_message [where containers_of = example_containers and u = example_user
        and cs = "[''abcdef0123456789'', ''0123456789abcdef'']" and write_file = example_write
        and q = "[(''file'', ''.gitconfig'')]"]
      deployment_message [where containers_of = example_containers and u = example_admin
        and cs = "[]" and write_file = example_write and q = "[(''file'', ''.gitconfig'')]"]
      a b
    by (simp add: example_write_def show_nat.simps digit_char_def)
qed

section \<open>A patch is applied to the live mapping\<close>

text \<open>
  Claim C3, as amended. On PATCH /user and PATCH /user/configurations the operations are
  handed to the patch library together with the live mapping itself, with no working
  copy. When the library returns, the mapping it leaves is saved and sent back with 200.
  When an operation fails, nothing is saved by this request and no response is written,
  and the live mapping is the document as the library left it, which keeps the changes
  of the operations before the failing one. For the configurations this is what happens
  once every operation has passed the whitelist.
\<close>

theorem patch_applied_in_place:
  assumes "live st = Some u" and "parse json_text = Some operations"
  shows "(applyPatch (profile u) operations = Applied d \<longrightarrow>
            userAPI_patch applyPatch parse st json_text =
              (st\<lparr>live := Some (u\<lparr>profile := d\<rparr>), saved := Some (u\<lparr>profile := d\<rparr>)\<rparr>,
               Response 200 d)) \<and>
         (applyPatch (profile u) operations = Threw d \<longrightarrow>
            userAPI_patch applyPatch parse st json_text =
              (st\<lparr>live := Some (u\<lparr>profile := d\<rparr>)\<rparr>, Uncaught)) \<and>
         (changedFiles operations = Some files \<and> set files \<subseteq> set allowed \<longrightarrow>
            (applyPatch (configurations u) operations = Applied d \<longrightarrow>
               configurationsAPI_patch applyPatch parse allowed st json_text =
                 (st\<lparr>live := Some (u\<lparr>configurations := d\<rparr>),
                     saved := Some (u\<lparr>configurations := d\<rparr>)\<rparr>,
                  Response 200 d)) \<and>
            (applyPatch (configurations u) operations = Threw d \<longrightarrow>
               configurationsAPI_patch applyPatch parse allowed st json_text =
                 (st\<lparr>live := Some (u\<lparr>configurations := d\<rparr>)\<rparr>, Uncaught)))"
  using assms
  by (simp add: userAPI_patch_def configurationsAPI_patch_def db_save_def find_not_allowed_None)

theorem patch_applied_in_place_witness:
  "userAPI_patch jsonpatch_applyPatch example_parse example_store body_add_then_test =
     (example_store\<lparr>live := Some (example_user\<lparr>profile := JObj [(''name'', JStr ''X'')]\<rparr>)\<rparr>,
      Uncaught) \<and>
   configurationsAPI_patch jsonpatch_applyPatch example_parse [''.gitconfig''] example_store
       body_gitconfig =
     (\<lparr>live = Some (example_user\<lparr>configurations := JObj [(''.gitconfig'', JStr ''[user]'')]\<rparr>),
       saved = Some (example_user\<lparr>configurations := JObj [(''.gitconfig'', JStr ''[user]'')]\<rparr>)\<rparr>,
      Response 200 (JObj [(''.gitconfig'', JStr ''[user]'')]))"
proof -
  have a: "live example_store = Some example_user"
    by (simp add: example_store_def)
  have b: "example_parse body_add_then_test = Some patch_add_then_test"
    by (simp add: patch_example_defs)
  have c: "example_parse body_gitconfig = Some patch_gitconfig"
    by (simp add: patch_example_defs)
  have d: "jsonpatch_applyPatch (profile example_user) patch_add_then_test =
             Threw (JObj [(''name'', JStr ''X'')])"
    by (simp add: jsonpatch_applyPatch_def applyOperation_def patch_example_defs)
  have e: "jsonpatch_applyPatch (configurations example_user) patch_gitconfig =
             Applied (JObj [(''.gitconfig'', JStr ''[user]'')])"
    by (simp add: jsonpatch_applyPatch_def applyOperation_def patch_example_defs)
  have f: "changedFiles patch_gitconfig = Some [''.gitconfig''] \<and>
           set [''.gitconfig''] \<subseteq> set [''.gitconfig'']"
    by (simp add: changedFiles_def operation_file_def strip_slash_def patch_gitconfig_def)
  show ?thesis
    using patch_applied_in_place [where st = example_store and u = example_user
        and parse = example_parse and json_text = body_add_then_test
        and operations = patch_add_then_test and applyPatch = jsonpatch_applyPatch
        and d = "JObj [(''name'', JStr ''X'')]"]
      patch_applied_in_place [where st = example_store and u = example_user
        and parse = example_parse and json_text = body_gitconfig
        and operations = patch_gitconfig and applyPatch = jsonpatch_applyPatch
        and d = "JObj [(''.gitconfig'', JStr ''[user]'')]" and files = "[''.gitconfig'']"
        and allowed = "[''.gitconfig'']"]
      a b c d e f
    by (simp add: example_store_def)
qed

text \<open>
  The claim as it was stated fails. The batch below adds \<^verbatim>\<open>/name\<close> and then tests it
  against another value: the test fails, the handler ends with the exception, and the
  live profile holds the added name. The next successful request of the user saves it.
\<close>

theorem patch_all_or_nothing_counterexample:
  "profile example_user = JObj [(''name'', JStr ''User Name'')] \<and>
   userAPI_patch jsonpatch_applyPatch example_parse example_store body_add_then_test =
     (\<lparr>live = Some (example_user\<lparr>profile := JObj [(''name'', JStr ''X'')]\<rparr>),
       saved = Some example_user\<rparr>, Uncaught) \<and>
   saved (fst (configurationsAPI_patch jsonpatch_applyPatch example_parse [''.gitconfig'']
                 (fst (userAPI_patch jsonpatch_applyPatch example_parse example_store
                         body_add_then_test))
                 body_gitconfig)) =
     Some \<lparr>profile = JObj [(''name'', JStr ''X'')],
           configurations = JObj [(''.gitconfig'', JStr ''[user]'')]\<rparr>"
  by (simp add: userAPI_patch_def configurationsAPI_patch_def db_save_def changedFiles_def
      operation_file_def strip_slash_def jsonpatch_applyPatch_def applyOperation_def
      patch_example_defs)

section \<open>The whitelist of configuration files\<close>

text \<open>
  Claim C4, as amended. On PATCH /user/configurations with a batch that is an array of
  operations each having a string path, the key the handler checks is the whole path
  less one leading slash (for a path of one segment, its top-level key). The batch is
  rejected with 400 \<^verbatim>\<open>Updating <key> is forbidden\<close>, naming the first key outside the
  whitelist and leaving the store as it was, exactly when some key is outside the
  whitelist; otherwise the batch passes the check and is handed to the patch library.
\<close>

theorem whitelist_checks_whole_path:
  assumes "live st = Some u"
      and "parse json_text = Some (JArr ops)"
      and "those (map operation_file ops) = Some files"
  shows "(\<not> set files \<subseteq> set allowed \<longrightarrow>
            configurationsAPI_patch applyPatch parse allowed st json_text =
              (st, Response 400 (error_body
                 (''Updating '' @ hd (filter (\<lambda>file. file \<notin> set allowed) files) @
                  '' is forbidden'')))) \<and>
         (set files \<subseteq> set allowed \<longrightarrow>
            configurationsAPI_patch applyPatch parse allowed st json_text =
              (case applyPatch (configurations u) (JArr ops) of
                 Threw d \<Rightarrow> (st\<lparr>live := Some (u\<lparr>configurations := d\<rparr>)\<rparr>, Uncaught)
               | Applied d \<Rightarrow>
                   (st\<lparr>live := Some (u\<lparr>configurations := d\<rparr>),
                       saved := Some (u\<lparr>configurations := d\<rparr>)\<rparr>,
                    Response 200 d)))"
  using assms
  by (simp add: configurationsAPI_patch_def changedFiles_def db_save_def find_not_allowed_None
      find_first_offending split: patch_result.splits)

theorem whitelist_checks_whole_path_witness:
  "configurationsAPI_patch jsonpatch_applyPatch example_parse [''.gitconfig''] example_store
       body_nested =
     (example_store, Response 400 (error_body ''Updating .gitconfig/name is forbidden''))"
proof -
  have a: "live example_store = Some example_user"
    by (simp add: example_store_def)
  have b: "example_parse body_nested =
             Some (JArr [JObj [(''op'', JStr ''add''), (''path'', JStr ''/.gitconfig/name''),
                               (''value'', JStr ''x'')]])"
    by (simp add: patch_example_defs)
  have c: "those (map operation_file
                    [JObj [(''op'', JStr ''add''), (''path'', JStr ''/.gitconfig/name''),
                           (''value'', JStr ''x'')]]) = Some [''.gitconfig/name'']"
    by (simp add: operation_file_def strip_slash_def)
  show ?thesis
    using whitelist_checks_whole_path [where st = example_store and u = example_user
        and parse = example_parse and json_text = body_nested
        and ops = "[JObj [(''op'', JStr ''add''), (''path'', JStr ''/.gitconfig/name''),
                          (''value'', JStr ''x'')]]"
        and files = "[''.gitconfig/name'']" and allowed = "[''.gitconfig'']"
        and applyPatch = jsonpatch_applyPatch]
      a b c
    by simp
qed

text \<open>
  The claim as it was stated fails: the top-level key of the path \<^verbatim>\<open>/.gitconfig/name\<close>
  is \<^verbatim>\<open>.gitconfig\<close>, which is in the whitelist, and the batch is rejected all the same,
  since the handler looks for \<^verbatim>\<open>.gitconfig/name\<close>.
\<close>

theorem whitelist_top_level_key_counterexample:
  "top_level_key ''/.gitconfig/name'' = ''.gitconfig'' \<and>
   operation_file (JObj [(''op'', JStr ''add''), (''path'', JStr ''/.gitconfig/name''),
                        (''value'', JStr ''x'')]) = Some ''.gitconfig/name'' \<and>
   example_parse body_nested =
     Some (JArr [JObj [(''op'', JStr ''add''), (''path'', JStr ''/.gitconfig/name''),
                       (''value'', JStr ''x'')]]) \<and>
   configurationsAPI_patch jsonpatch_applyPatch example_parse [''.gitconfig''] example_store
       body_nested =
     (example_store, Response 400 (error_body ''Updating .gitconfig/name is forbidden''))"
  by (simp add: configurationsAPI_patch_def changedFiles_def operation_file_def strip_slash_def
      top_level_key_def patch_example_defs)

section \<open>A body that is not JSON\<close>

text \<open>
  Claim C9, as amended. On PATCH /user and PATCH /user/configurations a body that
  \<^verbatim>\<open>JSON.parse\<close> rejects gets 400 \<^verbatim>\<open>Problems parsing JSON\<close>, the store stays as it
  was and the patch library is not consulted. On PATCH /user/configurations the same
  holds for a body that parses to something that is not an array, or to an array with an
  element that has no string path.
\<close>

theorem unparseable_patch_rejected:
  assumes "live st = Some u"
  shows "(parse json_text = None \<longrightarrow>
            userAPI_patch applyPatch parse st json_text =
              (st, Response 400 (error_body ''Problems parsing JSON'')) \<and>
            configurationsAPI_patch applyPatch parse allowed st json_text =
              (st, Response 400 (error_body ''Problems parsing JSON''))) \<and>
         (parse json_text = Some operations \<and>
          ((\<forall>ops. operations \<noteq> JArr ops) \<or>
           (\<exists>ops operation. operations = JArr ops \<and> operation \<in> set ops \<and>
                            operation_file operation = None)) \<longrightarrow>
            configurationsAPI_patch applyPatch parse allowed st json_text =
              (st, Response 400 (error_body ''Problems parsing JSON'')))"
proof -
  have "changedFiles operations = None"
    if "(\<forall>ops. operations \<noteq> JArr ops) \<or>
        (\<exists>ops operation. operations = JArr ops \<and> operation \<in> set ops \<and>
                         operation_file operation = None)"
    using that by (cases operations) (auto simp add: changedFiles_def those_map_None)
  then show ?thesis
    using assms by (auto simp add: userAPI_patch_def configurationsAPI_patch_def)
qed

theorem unparseable_patch_rejected_witness:
  "example_parse body_broken = None \<and>
   userAPI_patch jsonpatch_applyPatch example_parse example_store body_broken =
     (example_store, Response 400 (error_body ''Problems parsing JSON'')) \<and>
   configurationsAPI_patch jsonpatch_applyPatch example_parse [''.gitconfig''] example_store
       body_broken =
     (example_store, Response 400 (error_body ''Problems parsing JSON'')) \<and>
   configurationsAPI_patch jsonpatch_applyPatch example_parse [''.gitconfig''] example_store
       body_null =
     (example_store, Response 400 (error_body ''Problems parsing JSON''))"
proof -
  have a: "live example_store = Some example_user"
    by (simp add: example_store_def)
  have b: "example_parse body_broken = None"
    by (simp add: patch_example_defs)
  have c: "example_parse body_null = Some JNull"
    by (simp add: patch_example_defs)
  have d: "\<forall>ops. JNull \<noteq> JArr ops"
    by simp
  show ?thesis
    using unparseable_patch_rejected [OF a, where parse = example_parse
        and json_text = body_broken and applyPatch = jsonpatch_applyPatch
        and allowed = "[''.gitconfig'']" and operations = JNull]
      unparseable_patch_rejected [OF a, where parse = example_parse
        and json_text = body_null and applyPatch = jsonpatch_applyPatch
        and allowed = "[''.gitconfig'']" and operations = JNull]
      b c d
    by simp
qed

text \<open>
  The claim as it was stated fails on PATCH /user: the body \<^verbatim>\<open>null\<close> is JSON but no
  array of operations; it is handed to the patch library, whose exception leaves the
  handler, and no 400 is sent.
\<close>

theorem malformed_patch_counterexample:
  "example_parse body_null = Some JNull \<and>
   userAPI_patch jsonpatch_applyPatch example_parse example_store body_null =
     (example_store, Uncaught)"
  by (simp add: userAPI_patch_def jsonpatch_applyPatch_def patch_example_defs)

end
